theory Spec2Isabelle
  imports Complex_Main "HOL-Library.Sublist"
begin

section \<open>Text\<close>

text \<open>
  A Python \<open>str\<close> is modelled as a \<^typ>\<open>string\<close>: a list of 8-bit characters, read as
  code points below 256. The source inspects only ASCII characters of a text (backslash,
  the two quotes, newline, carriage return, white space), all other characters are
  passed through untouched.
\<close>

abbreviation BACKSLASH :: char where "BACKSLASH \<equiv> CHR 0x5C"
abbreviation SQUOTE :: char where "SQUOTE \<equiv> CHR 0x27"
abbreviation DQUOTE :: char where "DQUOTE \<equiv> CHR 0x22"
abbreviation NEWLINE :: char where "NEWLINE \<equiv> CHR 0x0A"
abbreviation CRETURN :: char where "CRETURN \<equiv> CHR 0x0D"
abbreviation BACKTICK :: char where "BACKTICK \<equiv> CHR 0x60"

text \<open>
  \<open>s.replace(old, new)\<close>: every occurrence of \<open>old\<close> in \<open>s\<close>, found from left to right
  and not overlapping, is replaced by \<open>new\<close>. With an empty \<open>old\<close>, \<open>new\<close> is put before
  every character and at the end.
\<close>

function str_replace :: "string \<Rightarrow> string \<Rightarrow> string \<Rightarrow> string" where
  "str_replace old new [] = (if old = [] then new else [])"
| "str_replace old new (c # cs) =
     (if old = [] then new @ c # str_replace old new cs
      else if prefix old (c # cs) then new @ str_replace old new (drop (length old) (c # cs))
      else c # str_replace old new cs)"
  by pat_completeness auto
termination
  by (relation "measure (\<lambda>(old, new, s). length s)") auto

text \<open>\<open>sep.join(xs)\<close>.\<close>

fun str_join :: "string \<Rightarrow> string list \<Rightarrow> string" where
  "str_join sep [] = []"
| "str_join sep [x] = x"
| "str_join sep (x # y # ys) = x @ sep @ str_join sep (y # ys)"

text \<open>\<open>str(n)\<close> of an integer: its decimal digits, with a minus sign when negative.\<close>

definition digit_char :: "nat \<Rightarrow> char" where
  "digit_char d = char_of (of_char (CHR ''0'') + d)"

fun str_nat :: "nat \<Rightarrow> string" where
  "str_nat n = (if n < 10 then [digit_char n] else str_nat (n div 10) @ [digit_char (n mod 10)])"

definition str_int :: "int \<Rightarrow> string" where
  "str_int i = (if i < 0 then CHR ''-'' # str_nat (nat (- i)) else str_nat (nat i))"

text \<open>The format \<open>%0wd\<close> of a field of a date: decimal digits, filled with zeros to width \<open>w\<close>.\<close>

definition zero_pad :: "nat \<Rightarrow> nat \<Rightarrow> string" where
  "zero_pad w n = replicate (w - length (str_nat n)) (CHR ''0'') @ str_nat n"

section \<open>Scalar values\<close>

text \<open>
  A floating-point number is either not-a-number or any other number. The source does no
  arithmetic on floats: it asks whether the value is null and prints it with \<open>str\<close>.
  A number other than NaN is therefore identified by the text \<open>str\<close> gives for it.
\<close>

datatype pyfloat = NaN | Num string

text \<open>
  The scalar values a cell of a table can hold, by their runtime class: \<open>None\<close>, the
  built-in \<open>bool\<close>, \<open>int\<close> and \<open>float\<close>, numpy's \<open>np.bool_\<close>, \<open>np.integer\<close> and
  \<open>np.floating\<close>, \<open>datetime.date\<close> (year, month, day), a naive \<open>datetime.datetime\<close>
  (year, month, day, hour, minute, second, microsecond), pandas' \<open>NaT\<close>, \<open>str\<close>, and an
  object of any other class that pandas does not count as missing, identified by the
  text \<open>str\<close> gives for it.
\<close>

datatype pyval =
    PyNone
  | PyBool bool
  | PyInt int
  | PyFloat pyfloat
  | NpBool bool
  | NpInteger int
  | NpFloating pyfloat
  | PyDate nat nat nat
  | PyDatetime nat nat nat nat nat nat nat
  | NaT
  | PyStr string
  | PyObject string

datatype pyclass =
    Cls_NoneType | Cls_bool | Cls_int | Cls_float
  | Cls_np_bool | Cls_np_integer | Cls_np_floating
  | Cls_date | Cls_datetime | Cls_NaTType | Cls_str | Cls_other

fun class_of :: "pyval \<Rightarrow> pyclass" where
  "class_of PyNone = Cls_NoneType"
| "class_of (PyBool b) = Cls_bool"
| "class_of (PyInt i) = Cls_int"
| "class_of (PyFloat x) = Cls_float"
| "class_of (NpBool b) = Cls_np_bool"
| "class_of (NpInteger i) = Cls_np_integer"
| "class_of (NpFloating x) = Cls_np_floating"
| "class_of (PyDate y m d) = Cls_date"
| "class_of (PyDatetime y m d hh mm ss us) = Cls_datetime"
| "class_of NaT = Cls_NaTType"
| "class_of (PyStr s) = Cls_str"
| "class_of (PyObject t) = Cls_other"

text \<open>
  The class itself followed by its base classes (\<open>object\<close> left out). In Python \<open>bool\<close>
  is a subclass of \<open>int\<close>, \<open>datetime.datetime\<close> is a subclass of \<open>datetime.date\<close>, and
  the class of \<open>NaT\<close> derives from \<open>datetime.datetime\<close>. \<open>np.bool_\<close> derives from neither
  \<open>int\<close> nor \<open>np.integer\<close>. (\<open>np.float64\<close> derives from \<open>float\<close> as well as from
  \<open>np.floating\<close>; the source names the two classes in the same test, so the numpy
  floats are kept as one class.)
\<close>

fun mro :: "pyclass \<Rightarrow> pyclass list" where
  "mro Cls_bool = [Cls_bool, Cls_int]"
| "mro Cls_datetime = [Cls_datetime, Cls_date]"
| "mro Cls_NaTType = [Cls_NaTType, Cls_datetime, Cls_date]"
| "mro c = [c]"

text \<open>\<open>isinstance(val, (c1, ..., cn))\<close>.\<close>

definition isinstance :: "pyval \<Rightarrow> pyclass list \<Rightarrow> bool" where
  "isinstance val classes = (filter (\<lambda>c. c \<in> set classes) (mro (class_of val)) \<noteq> [])"

text \<open>\<open>d.isoformat()\<close> of a date, and \<open>dt.isoformat(sep)\<close> of a naive datetime.\<close>

definition date_isoformat :: "nat \<Rightarrow> nat \<Rightarrow> nat \<Rightarrow> string" where
  "date_isoformat y m d = zero_pad 4 y @ ''-'' @ zero_pad 2 m @ ''-'' @ zero_pad 2 d"

definition datetime_isoformat ::
  "char \<Rightarrow> nat \<Rightarrow> nat \<Rightarrow> nat \<Rightarrow> nat \<Rightarrow> nat \<Rightarrow> nat \<Rightarrow> nat \<Rightarrow> string" where
  "datetime_isoformat sep y m d hh mm ss us =
     date_isoformat y m d @ [sep] @ zero_pad 2 hh @ '':'' @ zero_pad 2 mm @ '':'' @ zero_pad 2 ss
       @ (if us = 0 then [] else ''.'' @ zero_pad 6 us)"

text \<open>
  \<open>val.isoformat()\<close>. Only dates, datetimes and \<open>NaT\<close> have the method; the encoder calls
  it on a value that passed the class test for dates, and no other value is printed by it.
\<close>

fun isoformat :: "pyval \<Rightarrow> string" where
  "isoformat (PyDate y m d) = date_isoformat y m d"
| "isoformat (PyDatetime y m d hh mm ss us) = datetime_isoformat (CHR ''T'') y m d hh mm ss us"
| "isoformat NaT = ''NaT''"
| "isoformat v = []"

fun str_float :: "pyfloat \<Rightarrow> string" where
  "str_float NaN = ''nan''"
| "str_float (Num t) = t"

text \<open>\<open>str(val)\<close>.\<close>

fun str :: "pyval \<Rightarrow> string" where
  "str PyNone = ''None''"
| "str (PyBool b) = (if b then ''True'' else ''False'')"
| "str (PyInt i) = str_int i"
| "str (PyFloat x) = str_float x"
| "str (NpBool b) = (if b then ''True'' else ''False'')"
| "str (NpInteger i) = str_int i"
| "str (NpFloating x) = str_float x"
| "str (PyDate y m d) = date_isoformat y m d"
| "str (PyDatetime y m d hh mm ss us) = datetime_isoformat (CHR '' '') y m d hh mm ss us"
| "str NaT = ''NaT''"
| "str (PyStr s) = s"
| "str (PyObject t) = t"

text \<open>
  The truth value of a boolean, as the conditional expression of the boolean branch takes
  it; no other value reaches that branch.
\<close>

fun truth :: "pyval \<Rightarrow> bool" where
  "truth (PyBool b) = b"
| "truth (NpBool b) = b"
| "truth v = True"

text \<open>
  \<open>pd.isnull(val)\<close> on a scalar: true of \<open>None\<close>, of \<open>NaT\<close> and of a floating-point NaN.
\<close>

fun pd_isnull :: "pyval \<Rightarrow> bool" where
  "pd_isnull PyNone = True"
| "pd_isnull NaT = True"
| "pd_isnull (PyFloat x) = (x = NaN)"
| "pd_isnull (NpFloating x) = (x = NaN)"
| "pd_isnull v = False"

section \<open>The value encoder\<close>

text \<open>The text of a value that is a \<open>str\<close> already.\<close>

fun the_text :: "pyval \<Rightarrow> string" where
  "the_text (PyStr s) = s"
| "the_text v = []"

definition escape_mysql :: "pyval \<Rightarrow> string" where
  "escape_mysql val =
     (let val = (if \<not> isinstance val [Cls_str] then str val else the_text val);
          val = str_replace [BACKSLASH] [BACKSLASH, BACKSLASH] val;
          val = str_replace [SQUOTE] [BACKSLASH, SQUOTE] val;
          val = str_replace [DQUOTE] [BACKSLASH, DQUOTE] val;
          val = str_replace [NEWLINE] [BACKSLASH, CHR ''n''] val;
          val = str_replace [CRETURN] [BACKSLASH, CHR ''r''] val
      in val)"

definition format_sql_value :: "pyval \<Rightarrow> string" where
  "format_sql_value val =
     (if pd_isnull val then ''NULL''
      else if isinstance val [Cls_date, Cls_datetime] then [SQUOTE] @ isoformat val @ [SQUOTE]
      else if isinstance val [Cls_int, Cls_float, Cls_np_integer, Cls_np_floating] then str val
      else if isinstance val [Cls_bool, Cls_np_bool] then (if truth val then ''TRUE'' else ''FALSE'')
      else [SQUOTE] @ escape_mysql val @ [SQUOTE])"

section \<open>Tables\<close>

text \<open>
  A pandas \<open>DataFrame\<close>: the column labels, as the text an f-string prints for them, and
  the rows in index order, each row the values that iterating the row of \<open>iterrows\<close>
  yields, in column order.
\<close>

record dataframe =
  columns :: "string list"
  rows :: "pyval list list"

text \<open>\<open>len(df)\<close>, the number of rows.\<close>

definition len :: "dataframe \<Rightarrow> int" where
  "len df = int (length (rows df))"

text \<open>\<open>df.empty\<close>: one of the two axes has length 0.\<close>

definition df_empty :: "dataframe \<Rightarrow> bool" where
  "df_empty df = (columns df = [] \<or> rows df = [])"

text \<open>
  \<open>df.iloc[start:end]\<close>, the rows at positions \<open>start\<close> up to \<open>end\<close> (excluded). The
  generator calls it with \<open>0 \<le> start\<close> and \<open>0 \<le> end\<close> only.
\<close>

definition iloc :: "dataframe \<Rightarrow> int \<Rightarrow> int \<Rightarrow> pyval list list" where
  "iloc df start end = drop (nat start) (take (nat end) (rows df))"

datatype py_error = ValueError

text \<open>
  The elements of \<open>range(start, stop, step)\<close> for a step other than 0 (with step 0,
  \<open>range\<close> raises \<open>ValueError\<close>: see the generator).
\<close>

function py_range :: "int \<Rightarrow> int \<Rightarrow> int \<Rightarrow> int list" where
  "py_range start stop step =
     (if 0 < step \<and> start < stop then start # py_range (start + step) stop step
      else if step < 0 \<and> stop < start then start # py_range (start + step) stop step
      else [])"
  by pat_completeness auto
termination
  by (relation "measure (\<lambda>(start, stop, step).
        if 0 < step then nat (stop - start) else nat (start - stop))") auto

declare py_range.simps [simp del]

section \<open>The batch generator\<close>

text \<open>One row as a parenthesised value list (the body of the inner loop).\<close>

definition row_values :: "pyval list \<Rightarrow> string" where
  "row_values row =
     (let values = str_join '', '' (map format_sql_value row)
      in ''('' @ values @ '')'')"

text \<open>
  The text of one statement, from the rendered rows of its chunk; \<open>column_list\<close> is the
  source's local \<open>columns\<close>, the rendered list of column names.
\<close>

definition insert_query :: "string \<Rightarrow> string \<Rightarrow> string \<Rightarrow> string list \<Rightarrow> string" where
  "insert_query insert_command table_name column_list values_list =
     (let all_values = str_join ('','' @ [NEWLINE] @ ''  '') values_list
      in insert_command @ '' `'' @ table_name @ ''` ('' @ column_list @ '') VALUES'' @ [NEWLINE]
           @ ''  '' @ all_values @ '';'')"

text \<open>One iteration of the loop over the chunk starts: \<open>queries\<close> before and after.\<close>

definition chunk_step ::
  "dataframe \<Rightarrow> string \<Rightarrow> int \<Rightarrow> string \<Rightarrow> string \<Rightarrow> string list \<Rightarrow> int \<Rightarrow> string list" where
  "chunk_step df table_name chunk_size column_list insert_command queries start =
     (let end = min (start + chunk_size) (len df);
          df_chunk = iloc df start end;
          values_list = map row_values df_chunk
      in if values_list = [] then queries
         else queries @ [insert_query insert_command table_name column_list values_list])"

text \<open>The list \<open>queries\<close> when the loop has finished.\<close>

definition insert_queries :: "dataframe \<Rightarrow> string \<Rightarrow> int \<Rightarrow> bool \<Rightarrow> py_error + string list" where
  "insert_queries df table_name chunk_size use_ignore =
     (let queries = [];
          column_list = str_join '', '' (map (\<lambda>col. [BACKTICK] @ col @ [BACKTICK]) (columns df));
          insert_command = (if use_ignore then ''INSERT IGNORE INTO'' else ''INSERT INTO'')
      in if chunk_size = 0 then Inl ValueError
         else Inr (foldl (chunk_step df table_name chunk_size column_list insert_command) queries
                     (py_range 0 (len df) chunk_size)))"

definition separator :: string where
  "separator = [NEWLINE, NEWLINE] @ ''-- -- -- -- -- -- -- -- -- --'' @ [NEWLINE, NEWLINE]"

definition generate_chunked_insert_queries ::
  "dataframe \<Rightarrow> string \<Rightarrow> int \<Rightarrow> bool \<Rightarrow> py_error + string" where
  "generate_chunked_insert_queries df table_name chunk_size use_ignore =
     (case insert_queries df table_name chunk_size use_ignore of
        Inl e \<Rightarrow> Inl e
      | Inr queries \<Rightarrow> Inr (str_join separator queries))"

section \<open>The script around the generator\<close>

text \<open>
  \<open>df.rename(columns=new_column_names)\<close>: a label that is a key of the dictionary is
  replaced by its entry, the rows are untouched.
\<close>

definition rename_label :: "(string \<rightharpoonup> string) \<Rightarrow> string \<Rightarrow> string" where
  "rename_label new_column_names col =
     (case new_column_names col of Some new_name \<Rightarrow> new_name | None \<Rightarrow> col)"

definition df_rename :: "dataframe \<Rightarrow> (string \<rightharpoonup> string) \<Rightarrow> dataframe" where
  "df_rename df new_column_names = df\<lparr>columns := map (rename_label new_column_names) (columns df)\<rparr>"

text \<open>Where the script ends a run with \<open>st.stop()\<close>.\<close>

datatype stop = Stop_empty | Stop_not_unique

text \<open>The renaming of the columns and the check that the new labels are unique.\<close>

definition renamed_df :: "dataframe \<Rightarrow> (string \<rightharpoonup> string) \<Rightarrow> stop + dataframe" where
  "renamed_df df new_column_names =
     (let renamed_df = df_rename df new_column_names
      in if card (set (columns renamed_df)) \<noteq> length (columns renamed_df) then Inl Stop_not_unique
         else Inr renamed_df)"

text \<open>The text offered for download, from the generator's output.\<close>

definition final_query_output :: "bool \<Rightarrow> string \<Rightarrow> string \<Rightarrow> string" where
  "final_query_output truncate_table table_name generated_queries =
     (let final_query_output = [];
          final_query_output =
            (if truncate_table then ''TRUNCATE TABLE `'' @ table_name @ ''`;'' @ [NEWLINE, NEWLINE]
             else final_query_output)
      in final_query_output @ generated_queries)"

text \<open>
  White space as \<open>str.strip()\<close> sees it, among the code points below 256, and
  \<open>s.strip()\<close>.
\<close>

definition is_space :: "char \<Rightarrow> bool" where
  "is_space c = (of_char c \<in> {9, 10, 11, 12, 13, 28, 29, 30, 31, 32, 133, 160 :: nat})"

definition str_strip :: "string \<Rightarrow> string" where
  "str_strip s = rev (dropWhile is_space (rev (dropWhile is_space s)))"

text \<open>
  One run of the script on a loaded table, with the state of its widgets: the entries of
  the rename fields, whether the form was submitted, the table name, the chunk size (the
  number field has minimum 1), and the two check boxes.
\<close>

datatype outcome = Stopped stop | No_output | Raised py_error | Download string

definition script ::
  "dataframe \<Rightarrow> (string \<rightharpoonup> string) \<Rightarrow> bool \<Rightarrow> string \<Rightarrow> int \<Rightarrow> bool \<Rightarrow> bool \<Rightarrow> outcome" where
  "script df new_column_names submitted table_name chunk_size use_ignore truncate_table =
     (if df_empty df then Stopped Stop_empty
      else case renamed_df df new_column_names of
        Inl s \<Rightarrow> Stopped s
      | Inr renamed \<Rightarrow>
          if submitted \<and> table_name \<noteq> [] then
            if str_strip table_name = [] then No_output
            else (case generate_chunked_insert_queries renamed table_name chunk_size use_ignore of
                    Inl e \<Rightarrow> Raised e
                  | Inr generated_queries \<Rightarrow>
                      Download (final_query_output truncate_table table_name generated_queries))
          else No_output)"

section \<open>Notions used to state the properties\<close>

text \<open>
  The values of \<open>df_chunk\<close> in the order of the iterations of the generator's loop: for
  every \<open>start\<close> of the range, the rows from \<open>start\<close> to
  \<open>min(start + chunk_size, len(df))\<close>.
\<close>

definition df_chunks :: "dataframe \<Rightarrow> int \<Rightarrow> pyval list list list" where
  "df_chunks df chunk_size =
     map (\<lambda>start. iloc df start (min (start + chunk_size) (len df)))
       (py_range 0 (len df) chunk_size)"

text \<open>The rendered list of column names, the source's local \<open>columns\<close>.\<close>

definition column_list_of :: "string list \<Rightarrow> string" where
  "column_list_of cols = str_join '', '' (map (\<lambda>col. [BACKTICK] @ col @ [BACKTICK]) cols)"

text \<open>The statement keyword, the source's local \<open>insert_command\<close>.\<close>

definition insert_command_of :: "bool \<Rightarrow> string" where
  "insert_command_of use_ignore = (if use_ignore then ''INSERT IGNORE INTO'' else ''INSERT INTO'')"

text \<open>A table of three rows, used to run the definitions.\<close>

definition example_table :: dataframe where
  "example_table =
     \<lparr>columns = [''id'', ''name'', ''joined''],
      rows = [[PyInt 1, PyStr (''O'' @ [SQUOTE] @ ''Brien''), PyDate 2024 1 5],
              [PyInt 2, PyNone, PyDate 2024 2 1],
              [PyInt 3, PyStr ''Ann'', PyDate 2024 3 9]]\<rparr>"

subsection \<open>Reference notions for the escaping\<close>

text \<open>
  The escaping as one pass from left to right over the original characters: what each
  character of the input becomes, by the table of the five replacements.
\<close>

definition escape_char :: "char \<Rightarrow> string" where
  "escape_char c =
     (if c = BACKSLASH then [BACKSLASH, BACKSLASH]
      else if c = SQUOTE then [BACKSLASH, SQUOTE]
      else if c = DQUOTE then [BACKSLASH, DQUOTE]
      else if c = NEWLINE then [BACKSLASH, CHR ''n'']
      else if c = CRETURN then [BACKSLASH, CHR ''r'']
      else [c])"

definition single_pass_escape :: "string \<Rightarrow> string" where
  "single_pass_escape s = concat (map escape_char s)"

text \<open>
  The decoder of the documented escape sequences, read from left to right: a backslash
  and the character after it stand for one character (backslash, single quote, double
  quote, newline for \<open>n\<close>, carriage return for \<open>r\<close>), any other character stands for
  itself. A backslash followed by anything else, or by nothing, is not a documented
  sequence: the decoder gives \<open>None\<close>.
\<close>

fun decode_escapes :: "string \<Rightarrow> string option" where
  "decode_escapes [] = Some []"
| "decode_escapes [c] = (if c = BACKSLASH then None else Some [c])"
| "decode_escapes (c # d # cs) =
     (if c = BACKSLASH then
        (if d = BACKSLASH then map_option ((#) BACKSLASH) (decode_escapes cs)
         else if d = SQUOTE then map_option ((#) SQUOTE) (decode_escapes cs)
         else if d = DQUOTE then map_option ((#) DQUOTE) (decode_escapes cs)
         else if d = CHR ''n'' then map_option ((#) NEWLINE) (decode_escapes cs)
         else if d = CHR ''r'' then map_option ((#) CRETURN) (decode_escapes cs)
         else None)
      else map_option ((#) c) (decode_escapes (d # cs)))"

section \<open>Properties of the value encoder\<close>

lemma str_replace_char:
  "str_replace [c] new s = concat (map (\<lambda>x. if x = c then new else [x]) s)"
  by (induction s) auto

lemma five_replacements_concat:
  "str_replace [CRETURN] [BACKSLASH, CHR ''r'']
     (str_replace [NEWLINE] [BACKSLASH, CHR ''n'']
       (str_replace [DQUOTE] [BACKSLASH, DQUOTE]
         (str_replace [SQUOTE] [BACKSLASH, SQUOTE]
           (str_replace [BACKSLASH] [BACKSLASH, BACKSLASH] s))))
   = concat (map escape_char s)"
  by (induction s) (auto simp: str_replace_char escape_char_def)

lemma escaped_text: "(if \<not> isinstance val [Cls_str] then str val else the_text val) = str val"
  by (cases val) (simp_all add: isinstance_def)

lemma escape_mysql_concat: "escape_mysql val = concat (map escape_char (str val))"
  unfolding escape_mysql_def Let_def escaped_text by (rule five_replacements_concat)

lemma decode_escape_char:
  "decode_escapes (escape_char c @ t) = map_option ((#) c) (decode_escapes t)"
  by (cases t) (auto simp: escape_char_def)

lemma decode_concat_escape: "decode_escapes (concat (map escape_char s)) = Some s"
  by (induction s) (auto simp: decode_escape_char)

lemma format_sql_value_str:
  "format_sql_value (PyStr s) = [SQUOTE] @ escape_mysql (PyStr s) @ [SQUOTE]"
  by (simp add: format_sql_value_def isinstance_def)

text \<open>
  C1, evaluated on the code. The claim: every boolean is encoded as the unquoted literal
  \<open>TRUE\<close> or \<open>FALSE\<close>, the boolean test coming before the numeric one. In the code the
  numeric test comes first, and a built-in \<open>bool\<close> is an instance of \<open>int\<close>: the
  built-in booleans leave through the numeric branch and are printed by \<open>str\<close>, as
  \<open>True\<close> and \<open>False\<close>. Only numpy's \<open>np.bool_\<close> reaches the boolean branch.
\<close>

theorem format_sql_value_builtin_bool:
  "format_sql_value (PyBool True) = ''True'' \<and> format_sql_value (PyBool False) = ''False''
   \<and> format_sql_value (PyBool True) \<noteq> ''TRUE'' \<and> format_sql_value (PyBool False) \<noteq> ''FALSE''
   \<and> format_sql_value (NpBool b) = (if b then ''TRUE'' else ''FALSE'')"
  by (simp add: format_sql_value_def isinstance_def)

text \<open>
  C2: a text value is encoded as its escaped form between two single quotes, and
  decoding the escape sequences of that form gives the original text back; so two texts
  with the same escaped form are the same text.
\<close>

theorem text_round_trip:
  "format_sql_value (PyStr s) = [SQUOTE] @ escape_mysql (PyStr s) @ [SQUOTE]
   \<and> decode_escapes (escape_mysql (PyStr s)) = Some s
   \<and> (escape_mysql (PyStr s) = escape_mysql (PyStr t)) = (s = t)"
proof -
  have dec: "decode_escapes (escape_mysql (PyStr u)) = Some u" for u
    by (simp add: escape_mysql_concat decode_concat_escape)
  have "s = t" if eq: "escape_mysql (PyStr s) = escape_mysql (PyStr t)"
  proof -
    have "Some s = decode_escapes (escape_mysql (PyStr s))"
      by (simp only: dec)
    also have "\<dots> = decode_escapes (escape_mysql (PyStr t))"
      by (simp only: eq)
    also have "\<dots> = Some t"
      by (simp only: dec)
    finally show ?thesis by simp
  qed
  then have "(escape_mysql (PyStr s) = escape_mysql (PyStr t)) = (s = t)"
    by blast
  with dec [of s] format_sql_value_str [of s] show ?thesis
    by (intro conjI)
qed

text \<open>
  C5: on every input the escaping is the five replacements, in the order backslash,
  single quote, double quote, newline, carriage return, applied to the text of the
  value, and their composition is a single pass from left to right over the original
  characters: no replacement touches what an earlier one put in.
\<close>

theorem escape_mysql_five_replacements:
  "escape_mysql val =
     str_replace [CRETURN] [BACKSLASH, CHR ''r'']
       (str_replace [NEWLINE] [BACKSLASH, CHR ''n'']
         (str_replace [DQUOTE] [BACKSLASH, DQUOTE]
           (str_replace [SQUOTE] [BACKSLASH, SQUOTE]
             (str_replace [BACKSLASH] [BACKSLASH, BACKSLASH] (str val)))))
   \<and> escape_mysql val = single_pass_escape (str val)"
  unfolding single_pass_escape_def escape_mysql_concat five_replacements_concat by simp

text \<open>
  C6: a null value (\<open>None\<close>, and pandas' \<open>NaT\<close> as well) is encoded as the four
  characters \<open>NULL\<close>, without quotes.
\<close>

theorem null_encoded_as_NULL:
  "format_sql_value PyNone = ''NULL'' \<and> format_sql_value NaT = ''NULL''"
  by (simp add: format_sql_value_def)

text \<open>
  C9: a floating-point NaN, of the built-in \<open>float\<close> or of a numpy class, is caught by
  the null test of the encoder and encoded as \<open>NULL\<close>; it does not reach the numeric
  branch, which would print \<open>nan\<close>.
\<close>

theorem nan_encoded_as_NULL:
  "format_sql_value (PyFloat NaN) = ''NULL'' \<and> format_sql_value (NpFloating NaN) = ''NULL''
   \<and> str (PyFloat NaN) = ''nan''"
  by (simp add: format_sql_value_def)

text \<open>
  C10: a text containing none of backslash, single quote, double quote, newline and
  carriage return is left unchanged by the escaping.
\<close>

theorem escape_mysql_identity:
  "set s \<inter> {BACKSLASH, SQUOTE, DQUOTE, NEWLINE, CRETURN} = {} \<Longrightarrow> escape_mysql (PyStr s) = s"
  by (induction s) (auto simp: escape_mysql_concat escape_char_def)

theorem escape_mysql_identity_witness:
  "set ''users_2024'' \<inter> {BACKSLASH, SQUOTE, DQUOTE, NEWLINE, CRETURN} = {}
   \<and> escape_mysql (PyStr ''users_2024'') = ''users_2024''"
proof -
  have h: "set ''users_2024'' \<inter> {BACKSLASH, SQUOTE, DQUOTE, NEWLINE, CRETURN} = {}"
    by simp
  show ?thesis
    by (rule conjI [OF h escape_mysql_identity [OF h]])
qed

section \<open>Properties of the batch generator and of the script\<close>

lemma py_range_bounds:
  "0 < c \<Longrightarrow> x \<in> set (py_range s n c) \<Longrightarrow> s \<le> x \<and> x < n"
proof (induction s n c rule: py_range.induct)
  case (1 start stop step)
  show ?case
  proof (cases "start < stop")
    case True
    have r: "py_range start stop step = start # py_range (start + step) stop step"
      using True "1.prems"(1) by (subst py_range.simps) simp
    from "1.prems"(2) have "x = start \<or> x \<in> set (py_range (start + step) stop step)"
      unfolding r by simp
    then show ?thesis
      using "1.IH"(1) "1.prems"(1) True by auto
  next
    case False
    then have "py_range start stop step = []"
      using "1.prems"(1) by (subst py_range.simps) simp
    with "1.prems"(2) show ?thesis by simp
  qed
qed

lemma iloc_chunk_nonempty:
  "0 < c \<Longrightarrow> 0 \<le> x \<Longrightarrow> x < len df \<Longrightarrow> iloc df x (min (x + c) (len df)) \<noteq> []"
  by (auto simp: iloc_def len_def min_def)

lemma chunk_step_nonempty:
  "iloc df start (min (start + c) (len df)) \<noteq> [] \<Longrightarrow>
   chunk_step df tn c cols cmd queries start =
     queries @ [insert_query cmd tn cols (map row_values (iloc df start (min (start + c) (len df))))]"
  by (simp add: chunk_step_def Let_def)

lemma foldl_snoc_map:
  "(\<And>x acc. x \<in> set xs \<Longrightarrow> step acc x = acc @ [f x]) \<Longrightarrow> foldl step acc xs = acc @ map f xs"
  by (induction xs arbitrary: acc) auto

lemma foldl_chunk_step:
  assumes "0 < c"
  shows "foldl (chunk_step df tn c cols cmd) [] (py_range 0 (len df) c)
       = map (\<lambda>chunk. insert_query cmd tn cols (map row_values chunk)) (df_chunks df c)"
proof -
  have "foldl (chunk_step df tn c cols cmd) [] (py_range 0 (len df) c)
      = [] @ map (\<lambda>start. insert_query cmd tn cols
                     (map row_values (iloc df start (min (start + c) (len df)))))
               (py_range 0 (len df) c)"
  proof (rule foldl_snoc_map)
    fix x acc assume "x \<in> set (py_range 0 (len df) c)"
    then have "0 \<le> x \<and> x < len df"
      using py_range_bounds [OF assms] by blast
    then have "iloc df x (min (x + c) (len df)) \<noteq> []"
      using iloc_chunk_nonempty [OF assms] by blast
    then show "chunk_step df tn c cols cmd acc x =
        acc @ [insert_query cmd tn cols (map row_values (iloc df x (min (x + c) (len df))))]"
      by (rule chunk_step_nonempty)
  qed
  then show ?thesis
    by (simp add: df_chunks_def comp_def)
qed

lemma drop_take_append_drop:
  "a \<le> b \<Longrightarrow> drop a (take b xs) @ drop b xs = drop a xs"
  by (induction xs arbitrary: a b) (auto simp: take_Cons drop_Cons split: nat.splits)

lemma concat_chunks_from:
  "0 < c \<Longrightarrow> 0 \<le> s \<Longrightarrow>
   concat (map (\<lambda>start. iloc df start (min (start + c) (len df))) (py_range s (len df) c))
     = drop (nat s) (rows df)"
proof (induction s "len df" c rule: py_range.induct)
  case (1 start step)
  show ?case
  proof (cases "start < len df")
    case True
    have r: "py_range start (len df) step = start # py_range (start + step) (len df) step"
      using True "1.prems"(1) by (subst py_range.simps) simp
    have ih: "concat (map (\<lambda>start. iloc df start (min (start + step) (len df)))
                (py_range (start + step) (len df) step)) = drop (nat (start + step)) (rows df)"
      using "1.hyps"(1) True "1.prems" by simp
    have "iloc df start (min (start + step) (len df)) @ drop (nat (start + step)) (rows df)
        = drop (nat start) (rows df)"
    proof (cases "start + step \<le> len df")
      case le: True
      have "nat start \<le> nat (start + step)"
        using "1.prems" by simp
      then show ?thesis
        using le by (simp add: iloc_def min_def drop_take_append_drop)
    next
      case gt: False
      then show ?thesis
        by (simp add: iloc_def min_def len_def)
    qed
    then show ?thesis
      by (simp add: r ih)
  next
    case False
    then have "py_range start (len df) step = []"
      using "1.prems"(1) by (subst py_range.simps) simp
    then show ?thesis
      using False by (simp add: len_def)
  qed
qed

lemma length_py_range:
  "0 < c \<Longrightarrow> length (py_range s n c) = nat ((n - s + c - 1) div c)"
proof (induction s n c rule: py_range.induct)
  case (1 start stop step)
  show ?case
  proof (cases "start < stop")
    case True
    have r: "py_range start stop step = start # py_range (start + step) stop step"
      using True "1.prems"(1) by (subst py_range.simps) simp
    have ih: "length (py_range (start + step) stop step) = nat ((stop - (start + step) + step - 1) div step)"
      using "1.IH"(1) True "1.prems" by simp
    have "stop - start + step - 1 = step + (stop - start - 1)"
      by simp
    then have "(stop - start + step - 1) div step = (stop - start - 1) div step + 1"
      using "1.prems" by (simp only: div_add_self1)
    moreover have "0 \<le> (stop - start - 1) div step"
      using True "1.prems" by (simp add: pos_imp_zdiv_nonneg_iff)
    ultimately show ?thesis
      by (simp add: r ih nat_add_distrib)
  next
    case False
    then have "py_range start stop step = []"
      using "1.prems"(1) by (subst py_range.simps) simp
    moreover have "(stop - start + step - 1) div step \<le> (step - 1) div step"
      using False "1.prems" by (intro zdiv_mono1) simp_all
    moreover have "(step - 1) div step = 0"
      using "1.prems" by simp
    ultimately show ?thesis by simp
  qed
qed

lemma ceiling_div:
  assumes c: "0 < c"
  shows "\<lceil>real_of_int n / real_of_int c\<rceil> = (n + c - 1) div c"
proof (rule ceiling_unique)
  define q where "q = (n + c - 1) div c"
  have eq: "q * c + (n + c - 1) mod c = n + c - 1"
    unfolding q_def by (rule div_mult_mod_eq)
  have m: "0 \<le> (n + c - 1) mod c" "(n + c - 1) mod c < c"
    using c by simp_all
  have lo: "(q - 1) * c < n"
    using eq m by (simp add: algebra_simps)
  have hi: "n \<le> q * c"
    using eq m by (simp add: algebra_simps)
  have "real_of_int ((q - 1) * c) < real_of_int n"
    using lo by (simp only: of_int_less_iff)
  then have "(real_of_int q - 1) * real_of_int c < real_of_int n"
    by simp
  then show "real_of_int ((n + c - 1) div c) - 1 < real_of_int n / real_of_int c"
    using c by (simp add: pos_less_divide_eq q_def)
  have "real_of_int n \<le> real_of_int (q * c)"
    using hi by (simp only: of_int_le_iff)
  then have "real_of_int n \<le> real_of_int q * real_of_int c"
    by simp
  then show "real_of_int n / real_of_int c \<le> real_of_int ((n + c - 1) div c)"
    using c by (simp add: pos_divide_le_eq q_def)
qed


lemma insert_queries_chunks:
  assumes "1 \<le> chunk_size"
  shows "insert_queries df table_name chunk_size use_ignore =
     Inr (map (\<lambda>chunk. insert_query (insert_command_of use_ignore) table_name
                 (column_list_of (columns df)) (map row_values chunk))
            (df_chunks df chunk_size))"
proof -
  from assms have c: "0 < chunk_size" by simp
  show ?thesis
    using c foldl_chunk_step [OF c]
    by (simp add: insert_queries_def Let_def insert_command_of_def column_list_of_def)
qed

lemma concat_df_chunks: "1 \<le> chunk_size \<Longrightarrow> concat (df_chunks df chunk_size) = rows df"
  using concat_chunks_from [of chunk_size 0 df] by (simp add: df_chunks_def)

lemma length_df_chunks:
  assumes "1 \<le> chunk_size"
  shows "length (df_chunks df chunk_size)
       = nat \<lceil>real (length (rows df)) / real_of_int chunk_size\<rceil>"
proof -
  from assms have c: "0 < chunk_size" by simp
  have "real (length (rows df)) = real_of_int (len df)"
    by (simp add: len_def)
  then have "\<lceil>real (length (rows df)) / real_of_int chunk_size\<rceil> = (len df + chunk_size - 1) div chunk_size"
    using ceiling_div [OF c, of "len df"] by simp
  then show ?thesis
    using length_py_range [OF c, of 0 "len df"] by (simp add: df_chunks_def)
qed

lemma df_chunks_no_rows: "1 \<le> chunk_size \<Longrightarrow> df_chunks (df\<lparr>rows := []\<rparr>) chunk_size = []"
  by (simp add: df_chunks_def len_def py_range.simps)

lemma generate_from_queries:
  "insert_queries df table_name chunk_size use_ignore = Inr queries \<Longrightarrow>
   generate_chunked_insert_queries df table_name chunk_size use_ignore = Inr (str_join separator queries)"
  by (simp add: generate_chunked_insert_queries_def)

text \<open>
  C3: with a chunk size of at least 1, the generator emits one statement per chunk,
  \<open>ceil(R / C)\<close> statements for \<open>R\<close> rows and chunk size \<open>C\<close>; the chunks, one after
  the other in the order of their statements, are the rows of the table in their
  original order; a table with no rows gives the empty text.
\<close>

theorem chunk_count_and_order:
  assumes "1 \<le> chunk_size"
  shows "\<exists>queries.
           insert_queries df table_name chunk_size use_ignore = Inr queries
         \<and> generate_chunked_insert_queries df table_name chunk_size use_ignore
             = Inr (str_join separator queries)
         \<and> length queries = nat \<lceil>real (length (rows df)) / real_of_int chunk_size\<rceil>
         \<and> queries = map (\<lambda>chunk. insert_query (insert_command_of use_ignore) table_name
                                 (column_list_of (columns df)) (map row_values chunk))
                          (df_chunks df chunk_size)
         \<and> concat (df_chunks df chunk_size) = rows df
         \<and> generate_chunked_insert_queries (df\<lparr>rows := []\<rparr>) table_name chunk_size use_ignore
             = Inr []"
proof -
  let ?stmt = "\<lambda>chunk. insert_query (insert_command_of use_ignore) table_name
                 (column_list_of (columns df)) (map row_values chunk)"
  let ?queries = "map ?stmt (df_chunks df chunk_size)"
  have q: "insert_queries df table_name chunk_size use_ignore = Inr ?queries"
    by (rule insert_queries_chunks [OF assms])
  have g: "generate_chunked_insert_queries df table_name chunk_size use_ignore
             = Inr (str_join separator ?queries)"
    by (rule generate_from_queries [OF q])
  have n: "length ?queries = nat \<lceil>real (length (rows df)) / real_of_int chunk_size\<rceil>"
    using length_df_chunks [OF assms, of df] by simp
  have e: "generate_chunked_insert_queries (df\<lparr>rows := []\<rparr>) table_name chunk_size use_ignore = Inr []"
    using insert_queries_chunks [OF assms, of "df\<lparr>rows := []\<rparr>" table_name use_ignore]
    by (simp add: generate_chunked_insert_queries_def df_chunks_no_rows [OF assms])
  show ?thesis
    using q g n concat_df_chunks [OF assms, of df] e by blast
qed

theorem chunk_count_and_order_witness:
  "(1::int) \<le> 2
   \<and> (\<exists>queries.
           insert_queries example_table ''users'' 2 False = Inr queries
         \<and> generate_chunked_insert_queries example_table ''users'' 2 False
             = Inr (str_join separator queries)
         \<and> length queries = 2
         \<and> concat (df_chunks example_table 2) = rows example_table)"
proof -
  have h: "(1::int) \<le> 2" by simp
  have n: "nat \<lceil>real (length (rows example_table)) / real_of_int 2\<rceil> = 2"
    by (simp add: example_table_def)
  show ?thesis
    using h chunk_count_and_order [OF h, of example_table "''users''" False]
    unfolding n by blast
qed

lemma row_values_fun:
  "row_values = (\<lambda>row. ''('' @ str_join '', '' (map format_sql_value row) @ '')'')"
  by (rule ext) (simp add: row_values_def)

text \<open>
  C4: with a chunk size of at least 1, the output is the statements joined by a blank
  line, the comment rule and a blank line. Every statement is the keyword
  (\<open>INSERT IGNORE INTO\<close> with \<open>use_ignore\<close>, \<open>INSERT INTO\<close> without), the table name
  between backticks, the column names between backticks joined by comma and space, in
  parentheses and the same in every statement, \<open>VALUES\<close>, a newline and two spaces, the
  rows of the chunk joined by comma, newline and two spaces, and a semicolon; a row is
  the encoded values of its cells in column order, joined by comma and space, in
  parentheses.
\<close>

theorem statement_shape:
  assumes "1 \<le> chunk_size"
  shows "generate_chunked_insert_queries df table_name chunk_size use_ignore =
     Inr (str_join ([NEWLINE, NEWLINE] @ ''-- -- -- -- -- -- -- -- -- --'' @ [NEWLINE, NEWLINE])
       (map (\<lambda>chunk.
               (if use_ignore then ''INSERT IGNORE INTO'' else ''INSERT INTO'')
               @ '' `'' @ table_name @ ''` (''
               @ str_join '', '' (map (\<lambda>col. [BACKTICK] @ col @ [BACKTICK]) (columns df))
               @ '') VALUES'' @ [NEWLINE] @ ''  ''
               @ str_join ('','' @ [NEWLINE] @ ''  '')
                   (map (\<lambda>row. ''('' @ str_join '', '' (map format_sql_value row) @ '')'') chunk)
               @ '';'')
          (df_chunks df chunk_size)))"
proof -
  have "insert_query (insert_command_of use_ignore) table_name (column_list_of (columns df))
          (map row_values chunk)
      = (if use_ignore then ''INSERT IGNORE INTO'' else ''INSERT INTO'')
               @ '' `'' @ table_name @ ''` (''
               @ str_join '', '' (map (\<lambda>col. [BACKTICK] @ col @ [BACKTICK]) (columns df))
               @ '') VALUES'' @ [NEWLINE] @ ''  ''
               @ str_join ('','' @ [NEWLINE] @ ''  '')
                   (map (\<lambda>row. ''('' @ str_join '', '' (map format_sql_value row) @ '')'') chunk)
               @ '';''" for chunk
    by (simp add: insert_query_def insert_command_of_def column_list_of_def row_values_fun)
  then show ?thesis
    using generate_from_queries [OF insert_queries_chunks [OF assms, of df table_name use_ignore]]
    by (simp add: separator_def)
qed

text \<open>
  C7: with the truncate flag the text offered for download is one
  \<open>TRUNCATE TABLE\<close> statement on the table name, two newlines, and the generator's
  output after them, whatever the number of rows: for a table with no rows it is the
  \<open>TRUNCATE TABLE\<close> statement and the two newlines alone. Without the flag it is the
  generator's output.
\<close>

theorem truncate_prepended:
  assumes "1 \<le> chunk_size"
  shows "(\<exists>generated_queries.
            generate_chunked_insert_queries df table_name chunk_size use_ignore = Inr generated_queries
          \<and> final_query_output True table_name generated_queries
              = ''TRUNCATE TABLE `'' @ table_name @ ''`;'' @ [NEWLINE, NEWLINE] @ generated_queries
          \<and> final_query_output False table_name generated_queries = generated_queries)
       \<and> generate_chunked_insert_queries (df\<lparr>rows := []\<rparr>) table_name chunk_size use_ignore = Inr []
       \<and> final_query_output True table_name [] = ''TRUNCATE TABLE `'' @ table_name @ ''`;'' @ [NEWLINE, NEWLINE]"
proof -
  have e: "generate_chunked_insert_queries (df\<lparr>rows := []\<rparr>) table_name chunk_size use_ignore = Inr []"
    using insert_queries_chunks [OF assms, of "df\<lparr>rows := []\<rparr>" table_name use_ignore]
    by (simp add: generate_chunked_insert_queries_def df_chunks_no_rows [OF assms])
  show ?thesis
    using generate_from_queries [OF insert_queries_chunks [OF assms, of df table_name use_ignore]] e
    by (simp add: final_query_output_def)
qed

lemma collision_not_distinct:
  assumes "a \<in> set cols" "b \<in> set cols" "a \<noteq> b" "f a = f b"
  shows "\<not> distinct (map f cols)"
proof
  assume "distinct (map f cols)"
  then have "inj_on f (set cols)" by (simp add: distinct_map)
  with assms show False by (auto dest: inj_onD)
qed

lemma not_unique_iff: "(card (set xs) \<noteq> length xs) = (\<not> distinct xs)"
  using distinct_card [of xs] card_distinct [of xs] by blast

lemma renamed_df_cases:
  "renamed_df df m =
     (if distinct (map (rename_label m) (columns df))
      then Inr (df\<lparr>columns := map (rename_label m) (columns df)\<rparr>) else Inl Stop_not_unique)"
proof -
  let ?cols = "map (rename_label m) (columns df)"
  have c: "columns (df_rename df m) = ?cols"
    by (simp add: df_rename_def)
  have "renamed_df df m =
      (if card (set ?cols) \<noteq> length ?cols then Inl Stop_not_unique else Inr (df_rename df m))"
    unfolding renamed_df_def Let_def c ..
  also have "\<dots> = (if \<not> distinct ?cols then Inl Stop_not_unique else Inr (df_rename df m))"
    by (simp only: not_unique_iff)
  finally show ?thesis
    by (simp add: df_rename_def)
qed

text \<open>
  C8: when the renaming sends two different columns \<open>a\<close> and \<open>b\<close> of a table to the same
  name, the uniqueness check stops the script, whatever the state of the form: nothing
  is generated. When the new names of a table are pairwise different, the check passes,
  the renamed table has the new labels and the same rows, and its statements are those
  of the original table with the new labels in the column list: same chunks, same
  rendered rows, same order.
\<close>

theorem rename_checked:
  assumes "a \<in> set (columns df)" "b \<in> set (columns df)" "a \<noteq> b"
    and "rename_label new_column_names a = rename_label new_column_names b"
    and "distinct (map (rename_label new_names') (columns df'))"
    and "1 \<le> chunk_size"
  shows "renamed_df df new_column_names = Inl Stop_not_unique
       \<and> script df new_column_names submitted table_name chunk_size use_ignore truncate_table
           = Stopped (if df_empty df then Stop_empty else Stop_not_unique)
       \<and> (\<exists>renamed.
            renamed_df df' new_names' = Inr renamed
          \<and> columns renamed = map (rename_label new_names') (columns df')
          \<and> rows renamed = rows df'
          \<and> insert_queries df' table_name chunk_size use_ignore
              = Inr (map (\<lambda>chunk. insert_query (insert_command_of use_ignore) table_name
                            (column_list_of (columns df')) (map row_values chunk))
                       (df_chunks df' chunk_size))
          \<and> insert_queries renamed table_name chunk_size use_ignore
              = Inr (map (\<lambda>chunk. insert_query (insert_command_of use_ignore) table_name
                            (column_list_of (map (rename_label new_names') (columns df')))
                            (map row_values chunk))
                       (df_chunks df' chunk_size)))"
proof -
  have nd: "\<not> distinct (map (rename_label new_column_names) (columns df))"
    by (rule collision_not_distinct [OF assms(1-4)])
  then have r: "renamed_df df new_column_names = Inl Stop_not_unique"
    by (simp add: renamed_df_cases)
  have s: "script df new_column_names submitted table_name chunk_size use_ignore truncate_table
           = Stopped (if df_empty df then Stop_empty else Stop_not_unique)"
    by (simp add: script_def r)
  let ?renamed = "df'\<lparr>columns := map (rename_label new_names') (columns df')\<rparr>"
  have r': "renamed_df df' new_names' = Inr ?renamed"
    using assms(5) by (simp add: renamed_df_cases)
  have ch: "df_chunks ?renamed chunk_size = df_chunks df' chunk_size"
    by (simp add: df_chunks_def len_def iloc_def)
  have q: "insert_queries ?renamed table_name chunk_size use_ignore
              = Inr (map (\<lambda>chunk. insert_query (insert_command_of use_ignore) table_name
                            (column_list_of (map (rename_label new_names') (columns df')))
                            (map row_values chunk))
                       (df_chunks df' chunk_size))"
    using insert_queries_chunks [OF assms(6), of ?renamed table_name use_ignore] by (simp add: ch)
  show ?thesis
    using r s r' q insert_queries_chunks [OF assms(6), of df' table_name use_ignore] by simp
qed

theorem statement_shape_witness:
  "(1::int) \<le> 2
   \<and> generate_chunked_insert_queries example_table ''users'' 2 False =
     Inr (''INSERT INTO `users` (`id`, `name`, `joined`) VALUES'' @ [NEWLINE]
          @ ''  (1, '' @ [SQUOTE] @ ''O'' @ [BACKSLASH, SQUOTE] @ ''Brien'' @ [SQUOTE]
          @ '', '' @ [SQUOTE] @ ''2024-01-05'' @ [SQUOTE] @ ''),'' @ [NEWLINE]
          @ ''  (2, NULL, '' @ [SQUOTE] @ ''2024-02-01'' @ [SQUOTE] @ '');''
          @ [NEWLINE, NEWLINE] @ ''-- -- -- -- -- -- -- -- -- --'' @ [NEWLINE, NEWLINE]
          @ ''INSERT INTO `users` (`id`, `name`, `joined`) VALUES'' @ [NEWLINE]
          @ ''  (3, '' @ [SQUOTE] @ ''Ann'' @ [SQUOTE]
          @ '', '' @ [SQUOTE] @ ''2024-03-09'' @ [SQUOTE] @ '');'')"
proof -
  have h: "(1::int) \<le> 2" by simp
  have e: "(Inr (str_join ([NEWLINE, NEWLINE] @ ''-- -- -- -- -- -- -- -- -- --'' @ [NEWLINE, NEWLINE])
       (map (\<lambda>chunk.
               (if False then ''INSERT IGNORE INTO'' else ''INSERT INTO'')
               @ '' `'' @ ''users'' @ ''` (''
               @ str_join '', '' (map (\<lambda>col. [BACKTICK] @ col @ [BACKTICK]) (columns example_table))
               @ '') VALUES'' @ [NEWLINE] @ ''  ''
               @ str_join ('','' @ [NEWLINE] @ ''  '')
                   (map (\<lambda>row. ''('' @ str_join '', '' (map format_sql_value row) @ '')'') chunk)
               @ '';'')
          (df_chunks example_table 2))) :: py_error + string) =
     Inr (''INSERT INTO `users` (`id`, `name`, `joined`) VALUES'' @ [NEWLINE]
          @ ''  (1, '' @ [SQUOTE] @ ''O'' @ [BACKSLASH, SQUOTE] @ ''Brien'' @ [SQUOTE]
          @ '', '' @ [SQUOTE] @ ''2024-01-05'' @ [SQUOTE] @ ''),'' @ [NEWLINE]
          @ ''  (2, NULL, '' @ [SQUOTE] @ ''2024-02-01'' @ [SQUOTE] @ '');''
          @ [NEWLINE, NEWLINE] @ ''-- -- -- -- -- -- -- -- -- --'' @ [NEWLINE, NEWLINE]
          @ ''INSERT INTO `users` (`id`, `name`, `joined`) VALUES'' @ [NEWLINE]
          @ ''  (3, '' @ [SQUOTE] @ ''Ann'' @ [SQUOTE]
          @ '', '' @ [SQUOTE] @ ''2024-03-09'' @ [SQUOTE] @ '');'')"
    by code_simp
  show ?thesis
    by (rule conjI [OF h trans [OF statement_shape [OF h] e]])
qed

theorem truncate_prepended_witness:
  "(1::int) \<le> 2
   \<and> (\<exists>generated_queries.
            generate_chunked_insert_queries example_table ''users'' 2 False = Inr generated_queries
          \<and> final_query_output True ''users'' generated_queries
              = ''TRUNCATE TABLE `users`;'' @ [NEWLINE, NEWLINE] @ generated_queries
          \<and> final_query_output False ''users'' generated_queries = generated_queries)
   \<and> generate_chunked_insert_queries (example_table\<lparr>rows := []\<rparr>) ''users'' 2 False = Inr []
   \<and> final_query_output True ''users'' [] = ''TRUNCATE TABLE `users`;'' @ [NEWLINE, NEWLINE]"
proof -
  have h: "(1::int) \<le> 2" by simp
  show ?thesis
    using h truncate_prepended [OF h, of example_table "''users''" False] by simp
qed

theorem rename_checked_witness:
  "''id'' \<in> set (columns example_table) \<and> ''name'' \<in> set (columns example_table)
   \<and> rename_label (map_of [(''id'', ''name'')]) ''id'' = rename_label (map_of [(''id'', ''name'')]) ''name''
   \<and> distinct (map (rename_label (map_of [(''id'', ''user_id'')])) (columns example_table))
   \<and> renamed_df example_table (map_of [(''id'', ''name'')]) = Inl Stop_not_unique
   \<and> script example_table (map_of [(''id'', ''name'')]) True ''users'' 2 False True
       = Stopped Stop_not_unique
   \<and> (\<exists>renamed.
         renamed_df example_table (map_of [(''id'', ''user_id'')]) = Inr renamed
       \<and> columns renamed = [''user_id'', ''name'', ''joined'']
       \<and> rows renamed = rows example_table
       \<and> insert_queries example_table ''users'' 2 False
           = Inr (map (\<lambda>chunk. insert_query (insert_command_of False) ''users''
                         (column_list_of [''id'', ''name'', ''joined'']) (map row_values chunk))
                    (df_chunks example_table 2))
       \<and> insert_queries renamed ''users'' 2 False
           = Inr (map (\<lambda>chunk. insert_query (insert_command_of False) ''users''
                         (column_list_of [''user_id'', ''name'', ''joined'']) (map row_values chunk))
                    (df_chunks example_table 2)))"
proof -
  let ?m = "map_of [(''id'', ''name'')]"
  let ?m' = "map_of [(''id'', ''user_id'')]"
  have cols: "columns example_table = [''id'', ''name'', ''joined'']"
    by (simp add: example_table_def)
  have a: "''id'' \<in> set (columns example_table)" and b: "''name'' \<in> set (columns example_table)"
    by (simp_all add: cols)
  have ab: "''id'' \<noteq> ''name''" by simp
  have coll: "rename_label ?m ''id'' = rename_label ?m ''name''"
    by (simp add: rename_label_def)
  have dist: "distinct (map (rename_label ?m') (columns example_table))"
    by (simp add: cols rename_label_def)
  have h: "(1::int) \<le> 2" by simp
  have ne: "\<not> df_empty example_table"
    by (simp add: df_empty_def example_table_def)
  show ?thesis
    using rename_checked [OF a b ab coll dist h, of True "''users''" False True]
    by (simp add: ne cols rename_label_def)
qed

end
